(* ===== verification/Prelude.thy ===== *)
theory Prelude
  imports Main
begin

text \<open>
  Shared vocabulary of the development: CSS whitespace, trimming, the split of a
  declaration at its first colon, and the list lemmas on \<open>takeWhile\<close>/\<open>dropWhile\<close>
  over appended strings that let the simplifier run the CSS parser over a template text
  whose interpolated parts are symbolic. The collection \<open>css_eval\<close> gathers the rewrite
  rules that evaluate the parser on such texts.
\<close>

named_theorems css_eval "rules that evaluate the CSS parser over partly symbolic text"

section \<open>CSS whitespace and trimming\<close>

text \<open>CSS Syntax Level 3, 4.2: whitespace is space, tab, line feed, carriage return and
  form feed (the last two are normalised to line feed by preprocessing).\<close>

definition is_css_ws :: "char \<Rightarrow> bool" where
  "is_css_ws c \<longleftrightarrow> c = CHR '' '' \<or> c = CHR ''\<newline>'' \<or> c = CHR 0x09 \<or> c = CHR 0x0D \<or> c = CHR 0x0C"

text \<open>Trimming drops the whitespace at both ends. The right end is dropped by one pass
  from the back of the list (\<open>rtrim_ws\<close>).\<close>

fun rtrim_ws :: "string \<Rightarrow> string" where
  "rtrim_ws [] = []"
| "rtrim_ws (c # cs) = (case rtrim_ws cs of [] \<Rightarrow> if is_css_ws c then [] else [c] | r \<Rightarrow> c # r)"

definition trim_ws :: "string \<Rightarrow> string" where
  "trim_ws s = rtrim_ws (dropWhile is_css_ws s)"

definition blank :: "string \<Rightarrow> bool" where
  "blank s \<longleftrightarrow> (\<forall>c \<in> set s. is_css_ws c)"

text \<open>Split a string at its first occurrence of \<open>c\<close>: \<open>None\<close> when there is none.\<close>

fun split_first :: "char \<Rightarrow> string \<Rightarrow> (string \<times> string) option" where
  "split_first c [] = None"
| "split_first c (x # xs) =
     (if x = c then Some ([], xs) else map_option (\<lambda>(a, b). (x # a, b)) (split_first c xs))"

section \<open>Generic lemmas\<close>

text \<open>Whitespace read off the bits of a character (least significant first): one test
  instead of five comparisons when the simplifier classifies the characters of a text.\<close>

lemma is_css_ws_Char [simp, css_eval]:
  "is_css_ws (Char b0 b1 b2 b3 b4 b5 b6 b7) \<longleftrightarrow>
     \<not> b7 \<and> \<not> b6 \<and>
     (if b5 then \<not> b4 \<and> \<not> b3 \<and> \<not> b2 \<and> \<not> b1 \<and> \<not> b0
      else \<not> b4 \<and> b3 \<and> (b2 \<and> \<not> b1 \<or> \<not> b2 \<and> b1 \<noteq> b0))"
  by (cases b0; cases b1; cases b2; cases b3; cases b4; cases b5; cases b6; cases b7)
     (simp_all add: is_css_ws_def)

lemma dropWhile_all: "\<forall>c \<in> set xs. P c \<Longrightarrow> dropWhile P xs = []"
  by (induction xs) auto

lemma dropWhile_blank_prefix:
  "\<forall>c \<in> set xs. P c \<Longrightarrow> dropWhile P (xs @ ys) = dropWhile P ys"
  by (induction xs) auto

lemma rtrim_ws_Nil_iff: "rtrim_ws s = [] \<longleftrightarrow> (\<forall>c \<in> set s. is_css_ws c)"
  by (induction s) (auto split: list.splits)

lemma blank_iff_trim_Nil: "blank s \<longleftrightarrow> trim_ws s = []"
proof
  assume "blank s"
  then show "trim_ws s = []" by (simp add: trim_ws_def blank_def dropWhile_all)
next
  assume "trim_ws s = []"
  then have "\<forall>c \<in> set (dropWhile is_css_ws s). is_css_ws c"
    by (simp add: trim_ws_def rtrim_ws_Nil_iff)
  then have "dropWhile is_css_ws s = []"
    by (metis hd_dropWhile list.set_sel(1))
  then show "blank s" by (simp add: blank_def)
qed

lemma split_first_Some:
  "split_first c s = Some (a, b) \<Longrightarrow> s = a @ c # b \<and> c \<notin> set a"
  by (induction s arbitrary: a) (auto split: if_splits)

lemma split_first_append [simp]:
  "c \<notin> set xs \<Longrightarrow> split_first c (xs @ c # ys) = Some (xs, ys)"
  by (induction xs) auto

lemma blank_append [simp]: "blank (xs @ ys) \<longleftrightarrow> blank xs \<and> blank ys"
  by (auto simp: blank_def)

lemma blank_simps [simp]: "blank []" "blank (c # s) \<longleftrightarrow> is_css_ws c \<and> blank s"
  by (simp_all add: blank_def)

lemma trim_ws_blank_prefix [simp]:
  "blank xs \<Longrightarrow> trim_ws (xs @ ys) = trim_ws ys"
  by (simp add: trim_ws_def blank_def dropWhile_blank_prefix)

end
