(* ===== verification/JS_Values.thy ===== *)
theory JS_Values
  imports Prelude
begin

text \<open>
  The part of JavaScript's value semantics that the component's body uses: the values a
  prop can carry, truthiness (ECMA-262 ToBoolean), the logical OR \<open>a || b\<close>, the
  conditional \<open>c ? a : b\<close>, the default of a destructured parameter (applied only when
  the value is \<open>undefined\<close>), and ToString as a template literal's \<open>${v}\<close> applies
  it. Numbers are modelled by their integer values: the props of the component are
  strings and booleans, and ToBoolean of a number only asks whether it is zero.
\<close>

datatype js_val = JUndefined | JNull | JBool bool | JNum int | JStr string

text \<open>ToBoolean (ECMA-262 7.1.2).\<close>

fun truthy :: "js_val \<Rightarrow> bool" where
  "truthy JUndefined = False"
| "truthy JNull = False"
| "truthy (JBool b) = b"
| "truthy (JNum n) = (n \<noteq> 0)"
| "truthy (JStr s) = (s \<noteq> [])"

text \<open>\<open>a || b\<close>: the first operand when it is truthy, else the second.\<close>

definition js_or :: "js_val \<Rightarrow> js_val \<Rightarrow> js_val" where
  "js_or a b = (if truthy a then a else b)"

text \<open>\<open>c ? a : b\<close>.\<close>

definition js_cond :: "js_val \<Rightarrow> js_val \<Rightarrow> js_val \<Rightarrow> js_val" where
  "js_cond c a b = (if truthy c then a else b)"

text \<open>A destructuring default \<open>{ x = d }\<close> (ECMA-262 8.6.3): the default replaces
  the value only when it is \<open>undefined\<close>; \<open>null\<close>, \<open>false\<close> and \<open>''\<close> are kept.\<close>

definition js_default :: "js_val \<Rightarrow> js_val \<Rightarrow> js_val" where
  "js_default v d = (if v = JUndefined then d else v)"

text \<open>ToString (ECMA-262 7.1.17) on the values above; a template literal applies it to
  each substitution \<open>${v}\<close>.\<close>

definition decimal_digits :: string where
  "decimal_digits = ''0123456789''"

fun digits_of :: "nat \<Rightarrow> string" where
  "digits_of n = (if n < 10 then [decimal_digits ! n]
                  else digits_of (n div 10) @ [decimal_digits ! (n mod 10)])"

declare digits_of.simps [simp del]

definition int_to_string :: "int \<Rightarrow> string" where
  "int_to_string i = (if i < 0 then CHR ''-'' # digits_of (nat (- i)) else digits_of (nat i))"

fun js_to_string :: "js_val \<Rightarrow> string" where
  "js_to_string JUndefined = ''undefined''"
| "js_to_string JNull = ''null''"
| "js_to_string (JBool b) = (if b then ''true'' else ''false'')"
| "js_to_string (JNum n) = int_to_string n"
| "js_to_string (JStr s) = s"

section \<open>Lemmas\<close>

lemma js_or_truthy [simp]: "truthy a \<Longrightarrow> js_or a b = a"
  by (simp add: js_or_def)

lemma js_or_falsy [simp]: "\<not> truthy a \<Longrightarrow> js_or a b = b"
  by (simp add: js_or_def)

lemma js_cond_simps [simp]:
  "truthy c \<Longrightarrow> js_cond c a b = a"
  "\<not> truthy c \<Longrightarrow> js_cond c a b = b"
  by (simp_all add: js_cond_def)

lemma js_default_simps [simp]:
  "js_default JUndefined d = d"
  "v \<noteq> JUndefined \<Longrightarrow> js_default v d = v"
  by (simp_all add: js_default_def)

text \<open>\<open>||\<close> always yields a truthy value when its second operand is one.\<close>

lemma truthy_js_or: "truthy b \<Longrightarrow> truthy (js_or a b)"
  by (simp add: js_or_def)

lemma digits_of_nonempty: "digits_of n \<noteq> []"
  by (subst digits_of.simps) simp

lemma digits_of_digits: "set (digits_of n) \<subseteq> set decimal_digits"
proof (induction n rule: digits_of.induct)
  case (1 n)
  have nth: "m < 10 \<Longrightarrow> decimal_digits ! m \<in> set decimal_digits" for m :: nat
    by (rule nth_mem) (simp add: decimal_digits_def)
  show ?case
  proof (cases "n < 10")
    case True
    then show ?thesis
      using nth [of n] by (subst digits_of.simps) simp
  next
    case False
    then have "set (digits_of (n div 10)) \<subseteq> set decimal_digits" by (rule "1.IH")
    with False show ?thesis
      using nth [of "n mod 10"] by (subst digits_of.simps) simp
  qed
qed

end
