(* ===== verification/Props.thy ===== *)
theory Props
  imports JS_Values
begin

text \<open>
  The component's configuration (the spec's DisplayConfig): the props object of
  \<open>FloatingTopRightImage\<close> (src/app/components/FloatingTopRightImage.tsx, lines 20-28)
  and the destructuring of its parameter, which fills in the defaults. Every field holds
  a JavaScript value, because a caller may pass anything, \<open>null\<close> included; only
  \<open>undefined\<close> (an omitted prop) is replaced by the default. The fields \<open>top\<close> and
  \<open>right\<close> of the source are \<open>top_val\<close> and \<open>right_val\<close> here (\<open>top\<close> is a
  constant of HOL).
\<close>

record props =
  src :: js_val
  href :: js_val
  alt :: js_val
  imgWidth :: js_val
  top_val :: js_val
  right_val :: js_val
  newTab :: js_val

text \<open>A props object as JSX builds it from the attributes written at the call site:
  every attribute left out is \<open>undefined\<close>.\<close>

definition no_props :: props where
  "no_props = \<lparr>src = JUndefined, href = JUndefined, alt = JUndefined, imgWidth = JUndefined,
               top_val = JUndefined, right_val = JUndefined, newTab = JUndefined\<rparr>"

text \<open>The parameter pattern of lines 20-28: \<open>src\<close> has no default; each other field gets
  the default written after its \<open>=\<close>.\<close>

definition resolve_props :: "props \<Rightarrow> props" where
  "resolve_props p =
     \<lparr>src = src p,
      href = js_default (href p) (JStr ''#''),
      alt = js_default (alt p) (JStr ''''),
      imgWidth = js_default (imgWidth p) (JStr ''min(35vw, 200px)''),
      top_val = js_default (top_val p) (JStr ''0.75rem''),
      right_val = js_default (right_val p) (JStr ''0.75rem''),
      newTab = js_default (newTab p) (JBool False)\<rparr>"

text \<open>After destructuring no binding but \<open>src\<close> is \<open>undefined\<close>.\<close>

definition resolved :: "props \<Rightarrow> bool" where
  "resolved p \<longleftrightarrow> href p \<noteq> JUndefined \<and> alt p \<noteq> JUndefined \<and> imgWidth p \<noteq> JUndefined
     \<and> top_val p \<noteq> JUndefined \<and> right_val p \<noteq> JUndefined \<and> newTab p \<noteq> JUndefined"

lemma resolve_props_sel [simp]:
  "src (resolve_props p) = src p"
  "href (resolve_props p) = js_default (href p) (JStr ''#'')"
  "alt (resolve_props p) = js_default (alt p) (JStr '''')"
  "imgWidth (resolve_props p) = js_default (imgWidth p) (JStr ''min(35vw, 200px)'')"
  "top_val (resolve_props p) = js_default (top_val p) (JStr ''0.75rem'')"
  "right_val (resolve_props p) = js_default (right_val p) (JStr ''0.75rem'')"
  "newTab (resolve_props p) = js_default (newTab p) (JBool False)"
  by (simp_all add: resolve_props_def)

lemma js_default_defined: "d \<noteq> JUndefined \<Longrightarrow> js_default v d \<noteq> JUndefined"
  by (simp add: js_default_def)

text \<open>C15. Destructuring leaves no optional binding undefined: each of \<open>href\<close>, \<open>alt\<close>,
  \<open>imgWidth\<close>, \<open>top\<close>, \<open>right\<close> and \<open>newTab\<close> has a value after lines 20-28, whatever the caller
  passed.\<close>

theorem resolve_props_resolved: "resolved (resolve_props p)"
  by (simp add: resolved_def js_default_defined)

end
