(* ===== verification/Css_Syntax.thy ===== *)
theory Css_Syntax
  imports Prelude
begin

text \<open>
  The browser side of a \<open><style>\<close> element: the text of the element is parsed as a
  stylesheet (CSS Syntax Level 3, section 5). This theory models the part of that grammar
  the component's stylesheets use: qualified rules \<open>prelude { declarations }\<close>,
  at-rules with a block of rules (\<open>@media cond { rules }\<close>), declarations
  \<open>name: value\<close> separated by \<open>;\<close>, and comments \<open>/* ... */\<close>, which are removed.

  The parser is one machine over the characters of the text (\<open>css_step\<close>, run by
  \<open>css_run\<close>). Its state holds a comment mode (removing comments as the tokenizer of
  the standard does), the text read since the last delimiter \<open>{\<close>, \<open>}\<close> or \<open>;\<close>,
  a stack of the blocks that are open, and the rules finished at the top level.
  The grammar's error recovery is modelled where it is cheap and faithful (a declaration
  with no colon or an empty value is dropped; text before the end of a block that opens no
  block is dropped); a construct outside this subset (a \<open>{\<close> inside a declaration
  block, a \<open>}\<close> with no open block, an unclosed block at the end) makes the parse
  \<open>None\<close>. CSS strings and escapes are not interpreted, so texts containing quotes or
  backslashes are outside the subset as well. The machine does not match \<open>( )\<close> and
  \<open>[ ]\<close>; the properties that rely on it require (\<open>css_plain\<close>) that every bracket a
  substituted value opens is closed in it, which is where the machine and the standard
  agree.
\<close>

section \<open>Syntax trees\<close>

datatype css_decl = Decl string string

datatype css_rule = StyleRule string "css_decl list" | AtRule string "css_rule list"

section \<open>The parsing machine\<close>

datatype cmt_mode = Plain | Slash | InComment | InCommentStar

datatype frame = FAt string "css_rule list" | FStyle string "css_decl list"

record pstate =
  pmode :: cmt_mode
  pbuf :: string
  pstack :: "frame list"
  prules :: "css_rule list"

definition pinit :: pstate where
  "pinit = \<lparr>pmode = Plain, pbuf = [], pstack = [], prules = []\<rparr>"

text \<open>A declaration named \<open>n\<close> whose value text is \<open>v\<close>: dropped when the value is
  blank, trimmed otherwise.\<close>

definition decl_if :: "string \<Rightarrow> string \<Rightarrow> css_decl list" where
  "decl_if n v = (if blank v then [] else [Decl n (trim_ws v)])"

text \<open>A declaration is the text between two \<open>;\<close> (or a block's ends): a name, a colon,
  a value, each trimmed. No colon, or an empty name or value, drops it.\<close>

definition parse_decl :: "string \<Rightarrow> css_decl list" where
  "parse_decl s =
     (case split_first CHR '':'' s of
        None \<Rightarrow> []
      | Some (n, v) \<Rightarrow> if trim_ws n = [] then [] else decl_if (trim_ws n) v)"

text \<open>A finished rule goes to the innermost open at-rule, or to the top level.\<close>

definition add_rule :: "css_rule \<Rightarrow> pstate \<Rightarrow> pstate" where
  "add_rule r st =
     (case pstack st of
        [] \<Rightarrow> st\<lparr>prules := prules st @ [r]\<rparr>
      | FAt p rs # fs \<Rightarrow> st\<lparr>pstack := FAt p (rs @ [r]) # fs\<rparr>
      | FStyle _ _ # _ \<Rightarrow> st)"

text \<open>\<open>{\<close>: the text read, trimmed, is the prelude of a new block; a prelude starting
  with \<open>@\<close> opens an at-rule, any other a style rule.\<close>

definition new_frame :: "string \<Rightarrow> frame" where
  "new_frame pre = (if take 1 pre = ''@'' then FAt pre [] else FStyle pre [])"

definition open_block :: "pstate \<Rightarrow> pstate option" where
  "open_block st =
     (case pstack st of
        FStyle _ _ # _ \<Rightarrow> None
      | _ \<Rightarrow> Some (st\<lparr>pbuf := [], pstack := new_frame (trim_ws (pbuf st)) # pstack st\<rparr>))"

text \<open>\<open>}\<close>: the innermost block closes; in a style block the text read is its last
  declaration, in an at-rule block it is a prelude without a block and is dropped.\<close>

definition close_block :: "pstate \<Rightarrow> pstate option" where
  "close_block st =
     (case pstack st of
        [] \<Rightarrow> None
      | FStyle sel ds # fs \<Rightarrow>
          Some (add_rule (StyleRule sel (ds @ parse_decl (pbuf st)))
                         (st\<lparr>pbuf := [], pstack := fs\<rparr>))
      | FAt pre rs # fs \<Rightarrow>
          Some (add_rule (AtRule pre rs) (st\<lparr>pbuf := [], pstack := fs\<rparr>)))"

text \<open>\<open>;\<close> ends a declaration inside a style block; elsewhere it is prelude text.\<close>

definition semicolon :: "pstate \<Rightarrow> pstate" where
  "semicolon st =
     (case pstack st of
        FStyle sel ds # fs \<Rightarrow>
          st\<lparr>pbuf := [], pstack := FStyle sel (ds @ parse_decl (pbuf st)) # fs\<rparr>
      | _ \<Rightarrow> st\<lparr>pbuf := pbuf st @ '';''\<rparr>)"

definition plain_char :: "pstate \<Rightarrow> char \<Rightarrow> pstate option" where
  "plain_char st c =
     (if c = CHR ''{'' then open_block st
      else if c = CHR ''}'' then close_block st
      else if c = CHR '';'' then Some (semicolon st)
      else Some (st\<lparr>pbuf := pbuf st @ [c]\<rparr>))"

text \<open>One character. A \<open>/\<close> waits for the next character: \<open>*\<close> opens a comment,
  anything else makes the \<open>/\<close> ordinary text. A comment ends at \<open>*/\<close>.\<close>

definition css_step :: "pstate \<Rightarrow> char \<Rightarrow> pstate option" where
  "css_step st c =
     (case pmode st of
        Plain \<Rightarrow> if c = CHR ''/'' then Some (st\<lparr>pmode := Slash\<rparr>) else plain_char st c
      | Slash \<Rightarrow>
          if c = CHR ''*'' then Some (st\<lparr>pmode := InComment\<rparr>)
          else if c = CHR ''/'' then Some (st\<lparr>pbuf := pbuf st @ ''/''\<rparr>)
          else plain_char (st\<lparr>pmode := Plain, pbuf := pbuf st @ ''/''\<rparr>) c
      | InComment \<Rightarrow> Some (if c = CHR ''*'' then st\<lparr>pmode := InCommentStar\<rparr> else st)
      | InCommentStar \<Rightarrow>
          Some (if c = CHR ''/'' then st\<lparr>pmode := Plain\<rparr>
                else if c = CHR ''*'' then st else st\<lparr>pmode := InComment\<rparr>))"

fun css_run :: "pstate \<Rightarrow> string \<Rightarrow> pstate option" where
  "css_run st [] = Some st"
| "css_run st (c # cs) = (case css_step st c of None \<Rightarrow> None | Some st' \<Rightarrow> css_run st' cs)"

text \<open>At the end of the text every block must be closed; a prelude left over has no block
  and is dropped.\<close>

definition css_finish :: "pstate \<Rightarrow> css_rule list option" where
  "css_finish st = (if pstack st = [] then Some (prules st) else None)"

definition parse_stylesheet :: "string \<Rightarrow> css_rule list option" where
  "parse_stylesheet s = Option.bind (css_run pinit s) css_finish"

section \<open>Running the machine over pieces of text\<close>

text \<open>A template text is a list of pieces: the literal parts and the substituted values.
  The machine runs over them one after the other.\<close>

fun css_runs :: "pstate \<Rightarrow> string list \<Rightarrow> pstate option" where
  "css_runs st [] = Some st"
| "css_runs st (x # xs) = Option.bind (css_run st x) (\<lambda>st'. css_runs st' xs)"

text \<open>Brackets (CSS Syntax Level 3, 5.4.7-5.4.9): a \<open>(\<close> (alone or ending a function
  name such as \<open>calc(\<close>) or a \<open>[\<close> opens a simple block that only the matching closer
  ends; inside it any other closer is an ordinary token, and so is a closer with no block
  open. A block still open at the end of a declaration's value swallows the rest of the
  stylesheet. \<open>open_brackets stk v\<close> gives the closers still expected after reading
  \<open>v\<close>, innermost first.\<close>

fun open_brackets :: "string \<Rightarrow> string \<Rightarrow> string" where
  "open_brackets stk [] = stk"
| "open_brackets stk (c # cs) =
     open_brackets
       (if c = CHR ''('' then CHR '')'' # stk
        else if c = CHR ''['' then CHR '']'' # stk
        else (case stk of d # ds \<Rightarrow> if c = d then ds else stk | [] \<Rightarrow> stk)) cs"

text \<open>A value substituted into a declaration is \<^emph>\<open>plain\<close> when it cannot end the
  declaration, open or close a \<open>{}\<close> block, start a comment, start a CSS string or escape,
  carry an \<open>!important\<close> (which the cascade below does not model), or leave a \<open>(\<close> or
  \<open>[\<close> block open. The machine below does not match brackets: on
  texts whose brackets close within each declaration, as in the component's templates
  and in plain values, a browser reads the same rules as the machine.\<close>

definition css_plain :: "string \<Rightarrow> bool" where
  "css_plain v \<longleftrightarrow>
     (\<forall>c \<in> set v. c \<notin> set ''{};/!'' \<and> c \<noteq> CHR 0x22 \<and> c \<noteq> CHR 0x27 \<and> c \<noteq> CHR 0x5C) \<and>
     open_brackets [] v = []"

lemma css_run_append:
  "css_run st (xs @ ys) = Option.bind (css_run st xs) (\<lambda>st'. css_run st' ys)"
  by (induction xs arbitrary: st) (auto split: option.splits)

lemma css_run_concat: "css_run st (concat xss) = css_runs st xss"
  by (induction xss arbitrary: st) (simp_all add: css_run_append)

text \<open>Evaluation jumps over a run of ordinary characters in one step: the state
  changes only at the next \<open>{\<close>, \<open>}\<close>, \<open>;\<close> or \<open>/\<close>.\<close>

definition special :: "char \<Rightarrow> bool" where
  "special c \<longleftrightarrow> c = CHR ''{'' \<or> c = CHR ''}'' \<or> c = CHR '';'' \<or> c = CHR ''/''"

fun split_special :: "string \<Rightarrow> (string \<times> char \<times> string) option" where
  "split_special [] = None"
| "split_special (c # cs) =
     (if special c then Some ([], c, cs)
      else map_option (\<lambda>(a, d, b). (c # a, d, b)) (split_special cs))"

lemma css_run_ordinary:
  "pmode st = Plain \<Longrightarrow> \<forall>c \<in> set xs. \<not> special c \<Longrightarrow>
   css_run st (xs @ ys) = css_run (st\<lparr>pbuf := pbuf st @ xs\<rparr>) ys"
  by (induction xs arbitrary: st) (auto simp: special_def css_step_def plain_char_def)

text \<open>A plain value read in plain mode only extends the text read.\<close>

lemma css_run_plain [css_eval]:
  "pmode st = Plain \<Longrightarrow> css_plain v \<Longrightarrow> css_run st v = Some (st\<lparr>pbuf := pbuf st @ v\<rparr>)"
  using css_run_ordinary [of st v "[]"] by (auto simp: css_plain_def special_def)

lemma split_special_None: "split_special s = None \<Longrightarrow> \<forall>c \<in> set s. \<not> special c"
  by (induction s) (auto split: if_splits)

lemma split_special_Some:
  "split_special s = Some (pre, d, post) \<Longrightarrow> s = pre @ d # post \<and> (\<forall>c \<in> set pre. \<not> special c)"
  by (induction s arbitrary: pre) (auto split: if_splits)

lemma css_run_split:
  assumes plain: "pmode st = Plain"
  shows "css_run st s =
     (case split_special s of
        None \<Rightarrow> Some (st\<lparr>pbuf := pbuf st @ s\<rparr>)
      | Some (pre, d, post) \<Rightarrow>
          Option.bind (css_step (st\<lparr>pbuf := pbuf st @ pre\<rparr>) d) (\<lambda>st'. css_run st' post))"
proof (cases "split_special s")
  case None
  then have "\<forall>c \<in> set s. \<not> special c" by (rule split_special_None)
  with plain css_run_ordinary [of st s "[]"] show ?thesis
    using None by simp
next
  case (Some x)
  then obtain pre d post where x: "x = (pre, d, post)" by (cases x) auto
  with Some have "s = pre @ d # post" and "\<forall>c \<in> set pre. \<not> special c"
    using split_special_Some by blast+
  with plain have "css_run st s = css_run (st\<lparr>pbuf := pbuf st @ pre\<rparr>) (d # post)"
    by (simp add: css_run_ordinary)
  with Some x show ?thesis by (simp split: option.splits)
qed

lemma css_run_nonplain:
  "pmode st \<noteq> Plain \<Longrightarrow> css_run st (c # cs) = Option.bind (css_step st c) (\<lambda>st'. css_run st' cs)"
  by (simp split: option.splits)

text \<open>The simplifier finishes a piece of text before it looks at the rest.\<close>

lemma bind_weak_cong: "x = x' \<Longrightarrow> Option.bind x f = Option.bind x' f"
  by simp

lemma special_Char [css_eval]:
  "special (Char b0 b1 b2 b3 b4 b5 b6 b7) \<longleftrightarrow>
     b0 \<and> b3 \<and> b5 \<and> \<not> b7 \<and>
     (if b4 then b6 \<and> b1 \<noteq> b2 \<or> \<not> b6 \<and> b1 \<and> \<not> b2 else \<not> b6 \<and> b1 \<and> b2)"
  by (cases b0; cases b1; cases b2; cases b3; cases b4; cases b5; cases b6; cases b7)
     (simp_all add: special_def)

lemma decl_if_Nil [simp]: "decl_if n [] = []"
  by (simp add: decl_if_def)

lemma decl_if_Cons [css_eval]:
  "decl_if n (c # v) = (if is_css_ws c then decl_if n v else [Decl n (trim_ws (c # v))])"
  by (simp add: decl_if_def blank_def trim_ws_def)

lemmas css_machine_defs = css_step_def plain_char_def open_block_def close_block_def
  semicolon_def add_rule_def new_frame_def

text \<open>The rules that evaluate the parser over a text whose substituted values are
  symbolic. Proofs use them with \<open>simp only\<close>: the general simpset would also simplify
  every untaken branch, which makes the evaluation many times slower.\<close>

lemmas css_eval_rules [css_eval] = css_run_split [where s = "c # cs" for c cs] css_run_nonplain
  css_run.simps(1) css_runs.simps css_machine_defs pinit_def css_finish_def parse_decl_def
  trim_ws_def decl_if_Nil

lemmas css_eval_library [css_eval] = pstate.select_convs pstate.update_convs append.simps
  append_assoc append_Nil2 option.case prod.case list.case frame.case cmt_mode.case cmt_mode.distinct
  list.distinct list.inject char.inject simp_thms if_True if_False bind.simps option.map
  rtrim_ws.simps split_first.simps split_special.simps dropWhile.simps take_Suc_Cons take_0
  One_nat_def frame.distinct prod.inject option.inject option.distinct css_rule.inject
  css_decl.inject

lemmas css_eval_cong = bind_weak_cong if_weak_cong option.case_cong_weak prod.case_cong_weak
  list.case_cong_weak frame.case_cong_weak cmt_mode.case_cong_weak

end
