(* ===== verification/Styles.thy ===== *)
theory Styles
  imports Css_Syntax JS_Values
begin

text \<open>
  The two \<open><style>\<close> elements the component renders
  (src/app/components/FloatingTopRightImage.tsx, lines 31-38 and 39-75). Each is a
  template literal: its text is the literal parts, line by line as in the source, with
  ToString of each substitution \<open>${...}\<close> in between. \<open>floating_rules\<close> and
  \<open>container_rules\<close> are the rule trees these texts are meant to denote; the theorems
  of this theory show that the browser's parser (theory \<open>Css_Syntax\<close>) reads exactly
  them, as long as the substituted values are plain, and what it reads when they are not.
\<close>

section \<open>The style texts\<close>

text \<open>Lines 31-38. The substitution \<open>${''}\<close> of line 36 is ToString of the empty string.\<close>

definition container_styles_text :: string where
  "container_styles_text = concat [
     ''\<newline>'',
     ''        .floating-container { position: relative; }\<newline>'',
     ''        \<newline>'',
     ''        .floating-link { \<newline>'',
     ''          position: absolute; \<newline>'',
     ''          inset: '', js_to_string (JStr ''''), '';\<newline>'',
     ''        }\<newline>'',
     ''      '']"

text \<open>Lines 39-75, over the bindings \<open>top\<close>, \<open>right\<close> and \<open>imgWidth\<close>.\<close>

definition floating_styles_text :: "js_val \<Rightarrow> js_val \<Rightarrow> js_val \<Rightarrow> string" where
  "floating_styles_text top_v right_v imgWidth_v = concat [
     ''\<newline>'',
     ''\<newline>'',
     ''        .floating-image-link {\<newline>'',
     ''          position: absolute;\<newline>'',
     ''          top: '', js_to_string top_v, '';\<newline>'',
     ''          right: '', js_to_string right_v, '';\<newline>'',
     ''          display: inline-block;\<newline>'',
     ''          text-decoration: none;\<newline>'',
     ''          line-height: 0; /* remove inline-gap */\<newline>'',
     ''          z-index: 9;\<newline>'',
     ''        }\<newline>'',
     ''\<newline>'',
     ''        .floating-image-link:focus-visible {\<newline>'',
     ''          outline: 3px solid rgba(0, 0, 0, 0.5);\<newline>'',
     ''          outline-offset: 4px;\<newline>'',
     ''          border-radius: 12px;\<newline>'',
     ''        }\<newline>'',
     ''\<newline>'',
     ''        .floating-image {\<newline>'',
     ''          width: '', js_to_string imgWidth_v, '';\<newline>'',
     ''          height: auto;\<newline>'',
     ''          max-width: 100%;\<newline>'',
     ''          border-radius: 12px;\<newline>'',
     ''          box-shadow: 0 8px 24px rgba(0,0,0,0.15);\<newline>'',
     ''          display: block;\<newline>'',
     ''        }\<newline>'',
     ''\<newline>'',
     ''        @media (min-width: 768px) {\<newline>'',
     ''          .floating-image { width: min(22vw, 240px); }\<newline>'',
     ''        }\<newline>'',
     ''\<newline>'',
     ''        @media (prefers-reduced-motion: no-preference) {\<newline>'',
     ''          .floating-image-link { transition: transform 160ms ease, box-shadow 160ms ease; }\<newline>'',
     ''          .floating-image-link:hover { transform: translateY(-2px); }\<newline>'',
     ''          .floating-image-link:active { transform: translateY(0); }\<newline>'',
     ''        }\<newline>'',
     ''      '']"

section \<open>The rules the texts denote\<close>

definition container_rules :: "css_rule list" where
  "container_rules =
     [StyleRule ''.floating-container'' [Decl ''position'' ''relative''],
      StyleRule ''.floating-link'' ([Decl ''position'' ''absolute''] @ decl_if ''inset'' '''')]"

definition floating_rules :: "string \<Rightarrow> string \<Rightarrow> string \<Rightarrow> css_rule list" where
  "floating_rules t r w =
     [StyleRule ''.floating-image-link''
        ([Decl ''position'' ''absolute''] @ decl_if ''top'' t @ decl_if ''right'' r @
         [Decl ''display'' ''inline-block'', Decl ''text-decoration'' ''none'',
          Decl ''line-height'' ''0'', Decl ''z-index'' ''9'']),
      StyleRule ''.floating-image-link:focus-visible''
        [Decl ''outline'' ''3px solid rgba(0, 0, 0, 0.5)'', Decl ''outline-offset'' ''4px'',
         Decl ''border-radius'' ''12px''],
      StyleRule ''.floating-image''
        (decl_if ''width'' w @
         [Decl ''height'' ''auto'', Decl ''max-width'' ''100%'', Decl ''border-radius'' ''12px'',
          Decl ''box-shadow'' ''0 8px 24px rgba(0,0,0,0.15)'', Decl ''display'' ''block'']),
      AtRule ''@media (min-width: 768px)''
        [StyleRule ''.floating-image'' [Decl ''width'' ''min(22vw, 240px)'']],
      AtRule ''@media (prefers-reduced-motion: no-preference)''
        [StyleRule ''.floating-image-link''
           [Decl ''transition'' ''transform 160ms ease, box-shadow 160ms ease''],
         StyleRule ''.floating-image-link:hover'' [Decl ''transform'' ''translateY(-2px)''],
         StyleRule ''.floating-image-link:active'' [Decl ''transform'' ''translateY(0)'']]]"

section \<open>What the browser reads\<close>

text \<open>The first stylesheet as the browser reads it.\<close>

lemma container_styles_rules: "parse_stylesheet container_styles_text = Some container_rules"
  unfolding parse_stylesheet_def container_styles_text_def css_run_concat container_rules_def
  by (simp only: css_eval js_to_string.simps cong: css_eval_cong)

text \<open>The second stylesheet, for any substituted values that are plain.\<close>

lemma floating_styles_rules:
  assumes "css_plain (js_to_string t)" and "css_plain (js_to_string r)" and "css_plain (js_to_string w)"
  shows "parse_stylesheet (floating_styles_text t r w) =
           Some (floating_rules (js_to_string t) (js_to_string r) (js_to_string w))"
  using assms unfolding parse_stylesheet_def floating_styles_text_def css_run_concat floating_rules_def
  by (simp only: css_eval cong: css_eval_cong)

text \<open>A \<open>top\<close> value holding \<open>}\<close> and \<open>{\<close> is not plain: it closes the anchor's rule
  early and opens a rule of its own, which takes the anchor's remaining declarations.\<close>

lemma floating_styles_injected:
  "parse_stylesheet (floating_styles_text (JStr ''0 } .x { color: red'') (JStr ''0.75rem'')
                                          (JStr ''min(35vw, 200px)'')) =
   Some (StyleRule ''.floating-image-link'' [Decl ''position'' ''absolute'', Decl ''top'' ''0''] #
         StyleRule ''.x'' [Decl ''color'' ''red'', Decl ''right'' ''0.75rem'',
           Decl ''display'' ''inline-block'', Decl ''text-decoration'' ''none'',
           Decl ''line-height'' ''0'', Decl ''z-index'' ''9''] #
         tl (floating_rules ''0'' ''0.75rem'' ''min(35vw, 200px)''))"
  unfolding parse_stylesheet_def floating_styles_text_def css_run_concat floating_rules_def
  by (simp only: css_eval js_to_string.simps list.sel cong: css_eval_cong)

text \<open>C7. The browser reads the template of lines 39-75, with string props whose text is
  plain (no \<open>{ } ; / !\<close>, quote or backslash, and every \<open>(\<close> or \<open>[\<close> closed), as exactly
  the intended rules: a \<open>.floating-image-link\<close> rule with the offsets,
  its focus ring, a \<open>.floating-image\<close> rule with the width, the 768px media block and the
  motion block, each declaration with the value written in the source.\<close>

theorem floating_styles_roundtrip:
  assumes "css_plain t" and "css_plain r" and "css_plain w"
  shows "parse_stylesheet (floating_styles_text (JStr t) (JStr r) (JStr w)) = Some (floating_rules t r w)"
  using floating_styles_rules [of "JStr t" "JStr r" "JStr w"] assms by simp

theorem floating_styles_roundtrip_witness:
  "css_plain ''calc(1rem + 2px)'' \<and> css_plain ''5%'' \<and> css_plain ''180px'' \<and>
   parse_stylesheet (floating_styles_text (JStr ''calc(1rem + 2px)'') (JStr ''5%'') (JStr ''180px'')) =
     Some (floating_rules ''calc(1rem + 2px)'' ''5%'' ''180px'')"
  using floating_styles_roundtrip [of "''calc(1rem + 2px)''" "''5%''" "''180px''"] by (simp add: css_plain_def)

end
