(* ===== verification/Markup.thy ===== *)
theory Markup
  imports JS_Values
begin

text \<open>
  The React side of the component: a JSX tree (elements with props holding JavaScript
  values, text children, fragments) and its lowering to the DOM that React DOM 18 commits.
  Lowering follows React DOM's attribute rules (\<open>shouldRemoveAttribute\<close> and
  \<open>setValueForProperty\<close>): \<open>className\<close> is written as \<open>class\<close>; an attribute whose value is
  \<open>undefined\<close> or \<open>null\<close> is left out; a boolean is written as \<open>"true"\<close>/\<open>"false"\<close> on
  an \<open>aria-*\<close> or \<open>data-*\<close> attribute and left out on any other attribute that is not a
  boolean HTML attribute (none of the component's attributes is one); numbers and strings
  are written as their ToString. A fragment leaves its children in its place.
\<close>

datatype jsx = JElem string "(string \<times> js_val) list" "jsx list" | JText string | JFrag "jsx list"

datatype dom = DElem string "(string \<times> string) list" "dom list" | DText string

definition attr_name :: "string \<Rightarrow> string" where
  "attr_name n = (if n = ''className'' then ''class'' else n)"

definition aria_or_data :: "string \<Rightarrow> bool" where
  "aria_or_data n \<longleftrightarrow> take 5 n = ''aria-'' \<or> take 5 n = ''data-''"

fun react_attr :: "string \<times> js_val \<Rightarrow> (string \<times> string) list" where
  "react_attr (n, JUndefined) = []"
| "react_attr (n, JNull) = []"
| "react_attr (n, JBool b) =
     (if aria_or_data n then [(attr_name n, if b then ''true'' else ''false'')] else [])"
| "react_attr (n, JNum i) = [(attr_name n, int_to_string i)]"
| "react_attr (n, JStr s) = [(attr_name n, s)]"

fun lower :: "jsx \<Rightarrow> dom list" where
  "lower (JElem t as cs) = [DElem t (concat (map react_attr as)) (concat (map lower cs))]"
| "lower (JText s) = [DText s]"
| "lower (JFrag cs) = concat (map lower cs)"

text \<open>The value of an attribute of a DOM element, if it is present.\<close>

definition dom_attr :: "(string \<times> string) list \<Rightarrow> string \<Rightarrow> string option" where
  "dom_attr as n = map_of as n"

text \<open>The attributes of the first element with tag \<open>t\<close>, in document order.\<close>

fun find_elem :: "string \<Rightarrow> dom list \<Rightarrow> (string \<times> string) list option" where
  "find_elem t [] = None"
| "find_elem t (DText s # ds) = find_elem t ds"
| "find_elem t (DElem t' as cs # ds) =
     (if t' = t then Some as
      else (case find_elem t cs of Some r \<Rightarrow> Some r | None \<Rightarrow> find_elem t ds))"

section \<open>Lemmas\<close>

text \<open>A search that succeeds in a prefix of the document is not affected by what follows.\<close>

lemma find_elem_append: "find_elem t xs = Some r \<Longrightarrow> find_elem t (xs @ ys) = Some r"
  by (induction t xs rule: find_elem.induct) (auto split: if_splits option.splits)

end
