(* ===== verification/Component.thy ===== *)
theory Component
  imports Props Styles Markup
begin

text \<open>
  \<open>FloatingTopRightImage\<close> (src/app/components/FloatingTopRightImage.tsx, lines 20-88):
  the destructured props (theory \<open>Props\<close>) feed the two style texts (theory \<open>Styles\<close>)
  and the anchor with its image (lines 77-85). The lemmas give the DOM React commits for
  it and the attributes of the anchor and the image, on every kind of prop value.
\<close>

text \<open>Lines 77-85: the anchor and its image, over the destructured bindings.\<close>

definition floating_anchor :: "props \<Rightarrow> jsx" where
  "floating_anchor q =
     JElem ''a''
       [(''className'', JStr ''floating-image-link''),
        (''href'', href q),
        (''target'', js_cond (newTab q) (JStr ''_blank'') JUndefined),
        (''rel'', js_cond (newTab q) (JStr ''noopener noreferrer'') JUndefined),
        (''aria-label'', js_or (alt q) (JStr ''Open link''))]
       [JElem ''img'' [(''className'', JStr ''floating-image''), (''src'', src q), (''alt'', alt q)] []]"

text \<open>Lines 20-88: the fragment of the two \<open><style>\<close> elements and the anchor.\<close>

definition FloatingTopRightImage :: "props \<Rightarrow> jsx" where
  "FloatingTopRightImage p =
     (let q = resolve_props p in
      JFrag [JElem ''style'' [] [JText container_styles_text],
             JElem ''style'' [] [JText (floating_styles_text (top_val q) (right_val q) (imgWidth q))],
             floating_anchor q])"

text \<open>The substituted values are plain (\<open>css_plain\<close>): none can end its declaration,
  open or close a block, start a comment, carry \<open>!important\<close>, or leave a bracket open (an unclosed
  \<open>calc(\<close> would swallow the rest of the stylesheet). This is what a caller must
  ensure for the stylesheet to say what the source means; the default values are plain.\<close>

definition plain_props :: "props \<Rightarrow> bool" where
  "plain_props p \<longleftrightarrow>
     css_plain (js_to_string (top_val (resolve_props p))) \<and>
     css_plain (js_to_string (right_val (resolve_props p))) \<and>
     css_plain (js_to_string (imgWidth (resolve_props p)))"

section \<open>The DOM React commits\<close>

definition anchor_attrs :: "props \<Rightarrow> (string \<times> string) list" where
  "anchor_attrs q =
     [(''class'', ''floating-image-link'')] @ react_attr (''href'', href q) @
     react_attr (''target'', js_cond (newTab q) (JStr ''_blank'') JUndefined) @
     react_attr (''rel'', js_cond (newTab q) (JStr ''noopener noreferrer'') JUndefined) @
     react_attr (''aria-label'', js_or (alt q) (JStr ''Open link''))"

definition img_attrs :: "props \<Rightarrow> (string \<times> string) list" where
  "img_attrs q = [(''class'', ''floating-image'')] @ react_attr (''src'', src q) @ react_attr (''alt'', alt q)"

lemma lower_floating_anchor:
  "lower (floating_anchor q) = [DElem ''a'' (anchor_attrs q) [DElem ''img'' (img_attrs q) []]]"
  by (simp add: floating_anchor_def anchor_attrs_def img_attrs_def attr_name_def)

lemma lower_FloatingTopRightImage:
  "lower (FloatingTopRightImage p) =
     [DElem ''style'' [] [DText container_styles_text],
      DElem ''style'' [] [DText (floating_styles_text (top_val (resolve_props p))
                                   (right_val (resolve_props p)) (imgWidth (resolve_props p)))],
      DElem ''a'' (anchor_attrs (resolve_props p)) [DElem ''img'' (img_attrs (resolve_props p)) []]]"
  by (simp add: FloatingTopRightImage_def lower_floating_anchor Let_def)

text \<open>Looking an attribute up in the anchor: the attributes come in a fixed order and
  have distinct names, so each lookup reads one prop.\<close>

lemma attr_name_simps [simp]:
  "attr_name ''href'' = ''href''" "attr_name ''target'' = ''target''" "attr_name ''rel'' = ''rel''"
  "attr_name ''aria-label'' = ''aria-label''" "attr_name ''src'' = ''src''"
  "attr_name ''alt'' = ''alt''"
  by (simp_all add: attr_name_def)

lemma aria_or_data_simps [simp]:
  "\<not> aria_or_data ''href''" "\<not> aria_or_data ''target''" "\<not> aria_or_data ''rel''"
  "aria_or_data ''aria-label''" "\<not> aria_or_data ''src''" "\<not> aria_or_data ''alt''"
  by (simp_all add: aria_or_data_def)

lemma map_of_react_attr_other:
  "n \<noteq> attr_name m \<Longrightarrow> map_of (react_attr (m, v) @ rest) n = map_of rest n"
  by (cases v) auto

lemma map_of_react_attr_same:
  "map_of (react_attr (m, v) @ rest) (attr_name m) =
     (case react_attr (m, v) of [] \<Rightarrow> map_of rest (attr_name m) | (k, s) # _ \<Rightarrow> Some s)"
  by (cases v) auto

lemma map_of_react_attr_last: "n \<noteq> attr_name m \<Longrightarrow> map_of (react_attr (m, v)) n = None"
  using map_of_react_attr_other [of n m v "[]"] by simp

lemmas attr_lookup = map_of_react_attr_other map_of_react_attr_same map_of_react_attr_last

end
