(* ===== verification/Cascade.thy ===== *)
theory Cascade
  imports Css_Syntax Markup
begin

text \<open>
  The browser side of styling (CSS Cascade Level 4, Selectors Level 4, Media Queries
  Level 4), restricted to what the component's stylesheets use. A page's rules are the
  rules of its \<open><style>\<close> elements in document order. For an element, given by its
  classes and its state (hovered, active, focus-visible), and a medium (viewport width,
  reduced-motion preference), the cascaded value of a property is the value of the
  declaration that wins among the declarations of active rules whose selector matches:
  the highest specificity, and among equals the last in document order. Selectors are
  single class selectors with at most one pseudo-class (\<open>.c\<close>, \<open>.c:hover\<close>); media
  conditions are \<open>(min-width: Npx)\<close> and \<open>(prefers-reduced-motion: ...)\<close>. Anything else
  matches nothing. Validity of a value for its property, \<open>!important\<close>, inheritance and
  initial values are not modelled: no declaration is \<open>None\<close>.
\<close>

record media_env =
  viewport_width :: nat
  prefers_reduced_motion :: bool

record elem_state =
  hovered :: bool
  activated :: bool
  focus_visible :: bool

section \<open>Selectors\<close>

datatype selector = ClassSel string "string option"

definition class_name_ok :: "string \<Rightarrow> bool" where
  "class_name_ok c \<longleftrightarrow> c \<noteq> [] \<and> (\<forall>ch \<in> set c. \<not> is_css_ws ch \<and> ch \<notin> set ''.:#[>+~,*'')"

definition parse_selector :: "string \<Rightarrow> selector option" where
  "parse_selector s =
     (if s \<noteq> [] \<and> hd s = CHR ''.'' then
        (case split_first CHR '':'' (tl s) of
           None \<Rightarrow> if class_name_ok (tl s) then Some (ClassSel (tl s) None) else None
         | Some (c, p) \<Rightarrow> if class_name_ok c \<and> class_name_ok p then Some (ClassSel c (Some p)) else None)
      else None)"

fun pseudo_holds :: "elem_state \<Rightarrow> string \<Rightarrow> bool" where
  "pseudo_holds st p =
     (if p = ''hover'' then hovered st
      else if p = ''active'' then activated st
      else if p = ''focus-visible'' then focus_visible st
      else False)"

fun sel_matches :: "selector \<Rightarrow> string list \<Rightarrow> elem_state \<Rightarrow> bool" where
  "sel_matches (ClassSel c None) cls st = (c \<in> set cls)"
| "sel_matches (ClassSel c (Some p)) cls st = (c \<in> set cls \<and> pseudo_holds st p)"

text \<open>Specificity: a class and a pseudo-class each count in the same column.\<close>

fun specificity :: "selector \<Rightarrow> nat" where
  "specificity (ClassSel c None) = 1"
| "specificity (ClassSel c (Some p)) = 2"

section \<open>Media queries\<close>

definition strip_prefix :: "string \<Rightarrow> string \<Rightarrow> string option" where
  "strip_prefix p s = (if take (length p) s = p then Some (drop (length p) s) else None)"

definition nat_of_digits :: "string \<Rightarrow> nat option" where
  "nat_of_digits s =
     (if s \<noteq> [] \<and> set s \<subseteq> set ''0123456789''
      then Some (foldl (\<lambda>n c. 10 * n + (of_char c - 48)) 0 s) else None)"

text \<open>\<open>(min-width: Npx)\<close>: the viewport is at least \<open>N\<close> CSS pixels wide.\<close>

definition min_width_px :: "string \<Rightarrow> nat option" where
  "min_width_px c =
     (case strip_prefix ''(min-width: '' c of
        None \<Rightarrow> None
      | Some rest \<Rightarrow>
          if take 3 (rev rest) = '')xp'' then nat_of_digits (rev (drop 3 (rev rest))) else None)"

definition media_cond_holds :: "media_env \<Rightarrow> string \<Rightarrow> bool" where
  "media_cond_holds e c =
     (if c = ''(prefers-reduced-motion: no-preference)'' then \<not> prefers_reduced_motion e
      else if c = ''(prefers-reduced-motion: reduce)'' then prefers_reduced_motion e
      else case min_width_px c of Some n \<Rightarrow> n \<le> viewport_width e | None \<Rightarrow> False)"

definition media_holds :: "media_env \<Rightarrow> string \<Rightarrow> bool" where
  "media_holds e pre =
     (case strip_prefix ''@media '' pre of Some c \<Rightarrow> media_cond_holds e (trim_ws c) | None \<Rightarrow> False)"

section \<open>The cascade\<close>

text \<open>The declarations in force, in document order, with the selector of their rule.\<close>

fun active_decls :: "media_env \<Rightarrow> css_rule list \<Rightarrow> (string \<times> css_decl) list" where
  "active_decls e [] = []"
| "active_decls e (StyleRule sel ds # rs) = map (\<lambda>d. (sel, d)) ds @ active_decls e rs"
| "active_decls e (AtRule pre inner # rs) =
     (if media_holds e pre then active_decls e inner else []) @ active_decls e rs"

definition candidate :: "string list \<Rightarrow> elem_state \<Rightarrow> string \<Rightarrow> string \<times> css_decl \<Rightarrow> (nat \<times> string) list" where
  "candidate cls st prop sd =
     (case sd of (sel, Decl p v) \<Rightarrow>
        (case parse_selector sel of
           None \<Rightarrow> []
         | Some s \<Rightarrow> if p = prop \<and> sel_matches s cls st then [(specificity s, v)] else []))"

definition decl_candidates ::
  "media_env \<Rightarrow> css_rule list \<Rightarrow> string list \<Rightarrow> elem_state \<Rightarrow> string \<Rightarrow> (nat \<times> string) list" where
  "decl_candidates e rs cls st prop = concat (map (candidate cls st prop) (active_decls e rs))"

text \<open>The winner: the highest specificity; among equal ones, the last.\<close>

fun cascade_winner :: "(nat \<times> string) list \<Rightarrow> (nat \<times> string) option" where
  "cascade_winner [] = None"
| "cascade_winner (c # cs) =
     (case cascade_winner cs of None \<Rightarrow> Some c | Some w \<Rightarrow> if fst w < fst c then Some c else Some w)"

definition cascaded_value ::
  "media_env \<Rightarrow> css_rule list \<Rightarrow> string list \<Rightarrow> elem_state \<Rightarrow> string \<Rightarrow> string option" where
  "cascaded_value e rs cls st prop = map_option snd (cascade_winner (decl_candidates e rs cls st prop))"

section \<open>The page\<close>

fun text_of :: "dom \<Rightarrow> string" where
  "text_of (DText s) = s"
| "text_of (DElem t as cs) = []"

fun style_texts :: "dom \<Rightarrow> string list" where
  "style_texts (DText s) = []"
| "style_texts (DElem t as cs) =
     (if t = ''style'' then [concat (map text_of cs)] else concat (map style_texts cs))"

text \<open>A stylesheet outside the parsed subset contributes no rules.\<close>

definition page_rules :: "dom list \<Rightarrow> css_rule list" where
  "page_rules doc =
     concat (map (\<lambda>s. case parse_stylesheet s of Some rs \<Rightarrow> rs | None \<Rightarrow> [])
                 (concat (map style_texts doc)))"

fun ws_split :: "string \<Rightarrow> string list" where
  "ws_split [] = [[]]"
| "ws_split (c # cs) =
     (if is_css_ws c then [] # ws_split cs
      else (case ws_split cs of w # ws \<Rightarrow> (c # w) # ws | [] \<Rightarrow> [[c]]))"

definition elem_classes :: "(string \<times> string) list \<Rightarrow> string list" where
  "elem_classes as =
     (case map_of as ''class'' of None \<Rightarrow> [] | Some c \<Rightarrow> filter (\<lambda>w. w \<noteq> []) (ws_split c))"

text \<open>Every class of every element of a document, in document order.\<close>

fun dom_classes :: "dom \<Rightarrow> string list" where
  "dom_classes (DText s) = []"
| "dom_classes (DElem t as cs) = elem_classes as @ concat (map dom_classes cs)"

end
