(* ===== verification/Contract.thy ===== *)
theory Contract
  imports Component Cascade
begin

text \<open>
  The component's contract at the level of the spec (sections 3, 4.1 and 8): a
  \<open>display_config\<close> holds the values a caller gives, each optional field \<open>None\<close> when it
  is left out, with the types the spec gives them (strings, and a boolean for \<open>newTab\<close>).
  \<open>config_props\<close> is how such a config reaches the component as JSX props, and
  \<open>spec_anchor\<close> is what the spec promises of the link: its target, its accessible label
  (\<open>alt\<close> if non-empty, a fallback otherwise), whether it opens a new browsing context and
  whether that context is isolated from its opener, and the image's source and text,
  each an attribute the rendered DOM must carry.
  \<open>anchor_view\<close> reads the same contract back from the attributes of a rendered anchor
  and image; the root theory proves that the component's DOM refines \<open>spec_anchor\<close>.
\<close>

record display_config =
  cfg_src :: string
  cfg_href :: "string option"
  cfg_alt :: "string option"
  cfg_imgWidth :: "string option"
  cfg_top :: "string option"
  cfg_right :: "string option"
  cfg_newTab :: "bool option"

definition opt_str :: "string option \<Rightarrow> js_val" where
  "opt_str v = (case v of None \<Rightarrow> JUndefined | Some s \<Rightarrow> JStr s)"

definition config_props :: "display_config \<Rightarrow> props" where
  "config_props c =
     \<lparr>src = JStr (cfg_src c), href = opt_str (cfg_href c), alt = opt_str (cfg_alt c),
      imgWidth = opt_str (cfg_imgWidth c), top_val = opt_str (cfg_top c),
      right_val = opt_str (cfg_right c),
      newTab = (case cfg_newTab c of None \<Rightarrow> JUndefined | Some b \<Rightarrow> JBool b)\<rparr>"

record anchor_contract =
  link_target :: "string option"
  label :: "string option"
  new_context :: bool
  isolated :: bool
  image_source :: "string option"
  image_text :: "string option"

text \<open>What the spec promises for a config: every field is present, the link target is
  \<open>href\<close> or the no-op \<open>#\<close>, and \<open>alt\<close> defaults to the empty text.\<close>

definition spec_anchor :: "display_config \<Rightarrow> anchor_contract" where
  "spec_anchor c =
     (let a = (case cfg_alt c of None \<Rightarrow> [] | Some s \<Rightarrow> s) in
      \<lparr>link_target = Some (case cfg_href c of None \<Rightarrow> ''#'' | Some h \<Rightarrow> h),
       label = Some (if a = [] then ''Open link'' else a),
       new_context = (cfg_newTab c = Some True),
       isolated = (cfg_newTab c = Some True),
       image_source = Some (cfg_src c),
       image_text = Some a\<rparr>)"

text \<open>The contract as a browser reads it from the attributes of an anchor and its image:
  a missing attribute is \<open>None\<close>; the new context is \<open>target="_blank"\<close>; isolation is a
  \<open>rel\<close> holding both \<open>noopener\<close> and \<open>noreferrer\<close>.\<close>

definition anchor_view :: "(string \<times> string) list \<Rightarrow> (string \<times> string) list \<Rightarrow> anchor_contract" where
  "anchor_view as is =
     \<lparr>link_target = map_of as ''href'',
      label = map_of as ''aria-label'',
      new_context = (map_of as ''target'' = Some ''_blank''),
      isolated = (case map_of as ''rel'' of
                    None \<Rightarrow> False
                  | Some r \<Rightarrow> ''noopener'' \<in> set (ws_split r) \<and> ''noreferrer'' \<in> set (ws_split r)),
      image_source = map_of is ''src'',
      image_text = map_of is ''alt''\<rparr>"

section \<open>Lemmas\<close>

lemma anchor_view_attrs:
  "anchor_view (anchor_attrs (resolve_props (config_props c))) (img_attrs (resolve_props (config_props c))) =
     spec_anchor c"
  by (cases "cfg_alt c"; cases "cfg_href c"; cases "cfg_newTab c")
     (simp_all add: anchor_view_def spec_anchor_def config_props_def opt_str_def
        anchor_attrs_def img_attrs_def attr_lookup js_or_def js_cond_def del: map_of_append)

end
