(* ===== verification/Spec2Isabelle.thy ===== *)
theory Spec2Isabelle
  imports Component Cascade Contract
begin

text \<open>
  \<^bold>\<open>FloatingTopRightImage, verified.\<close>
  The repository's one source file, src/app/components/FloatingTopRightImage.tsx, is a
  React function component: it destructures its props with defaults (lines 20-28) and
  returns a fragment of two \<open><style>\<close> elements, whose texts are template literals
  (lines 31-38 and 39-75), and an anchor holding an image (lines 77-85). Its behaviour is
  what a browser makes of that output, so the development models the component and the
  platform semantics it relies on, and proves the spec's properties end to end: from the
  props, through React's DOM, the CSS parser and the cascade, to the values the anchor and
  the image get.

  \<^bold>\<open>Theories.\<close>
  \<^item> \<open>Prelude\<close>: CSS whitespace, trimming, splitting at a character; the collection
    \<open>css_eval\<close> of evaluation rules.
  \<^item> \<open>JS_Values\<close>: JavaScript values a prop can hold, ToBoolean (\<open>truthy\<close>), \<open>||\<close>
    (\<open>js_or\<close>), \<open>?:\<close> (\<open>js_cond\<close>), destructuring defaults (\<open>js_default\<close>), ToString
    (\<open>js_to_string\<close>). Language semantics; the three operators the source writes
    (\<open>||\<close> on line 82, \<open>?:\<close> on lines 80-81, the defaults of lines 22-27) are mapped to
    those lines.
  \<^item> \<open>Props\<close>: the props record and \<open>resolve_props\<close>, the parameter pattern of lines
    20-28.
  \<^item> \<open>Css_Syntax\<close>: the browser's CSS parser for the subset the component uses, as a
    machine over characters (\<open>css_step\<close>, \<open>css_run\<close>, \<open>parse_stylesheet\<close>), with the
    lemmas that let the simplifier run it over texts with symbolic substitutions.
  \<^item> \<open>Styles\<close>: the two template texts exactly as in the source
    (\<open>container_styles_text\<close>, \<open>floating_styles_text\<close>), the rule trees they mean
    (\<open>container_rules\<close>, \<open>floating_rules\<close>), and that the parser reads the one as the
    other.
  \<^item> \<open>Markup\<close>: JSX trees and React DOM 18's lowering to the DOM (\<open>lower\<close>,
    \<open>react_attr\<close>): \<open>className\<close> becomes \<open>class\<close>, \<open>undefined\<close>/\<open>null\<close> attributes are
    left out, booleans only survive on \<open>aria-*\<close>/\<open>data-*\<close>.
  \<^item> \<open>Component\<close>: \<open>FloatingTopRightImage\<close> and \<open>floating_anchor\<close> (lines 20-88 and
    77-85) and the DOM they lower to.
  \<^item> \<open>Cascade\<close>: which declaration wins for an element (\<open>cascaded_value\<close>), media
    queries, class selectors with a pseudo-class, specificity and document order;
    \<open>page_rules\<close> collects a page's stylesheets.
  \<^item> \<open>Contract\<close>: the spec's DisplayConfig (\<open>display_config\<close>, \<open>config_props\<close>), the
    contract it promises for the link (\<open>spec_anchor\<close>) and how a browser reads that
    contract from the rendered attributes (\<open>anchor_view\<close>).
  \<^item> This theory: reading the rendered page (\<open>anchor_attr\<close>, \<open>anchor_value\<close>, ...) and
    the properties across components.

  \<^bold>\<open>What is proved.\<close>
  The accessible label and the new-tab attributes for every kind of prop value (C1, C2);
  the image width on both sides of the 768px breakpoint (C3, C4); that reduced motion
  removes the transition and the transforms and that otherwise hover and active move the
  link (C5, C6); that the browser reads the second template as the intended rules (C7,
  theory \<open>Styles\<close>); the offsets, the focus ring and the width cap (C8-C10); the spec's
  default scenario end to end (C11); and what the code does at its edges: the \<open>href\<close>
  for every value of the prop, none for \<open>null\<close> (C12), a value with \<open>}\<close> rewrites the
  stylesheet (C13), and two instances on one page share one set of rules, the last one
  winning (C14). C15 (theory \<open>Props\<close>) says that destructuring leaves no optional binding
  undefined; C16 gives the image's \<open>src\<close> and \<open>alt\<close> for every value of the props; C17
  that the first template's rules match nothing the component renders. C18 is the
  refinement: for every DisplayConfig of the spec, the rendered anchor and image implement
  \<open>spec_anchor\<close>, attribute by attribute.

  \<^bold>\<open>Hypotheses.\<close>
  Most style properties assume \<open>plain_props\<close>: the substituted \<open>top\<close>, \<open>right\<close> and
  \<open>imgWidth\<close> contain none of \<open>{ } ; / !\<close>, quotes or backslash, and close every \<open>(\<close> and
  \<open>[\<close> they open. Without it a browser reads other rules than the template's: a \<open>}\<close>
  ends the anchor's rule (C13), an unclosed \<open>calc(\<close> swallows the rest of the
  stylesheet, and \<open>!important\<close> overrides the media rule. The parser does not match
  brackets, so the bracket condition is what keeps the model and the browser in step. The
  defaults satisfy it (\<open>plain_defaults\<close>, which most witnesses use). The hypotheses on
  the viewport and the state of C3-C6 split the cases the media queries distinguish. No
  fuel or bound is used: every function is total by structural recursion.

  \<^bold>\<open>Not modelled.\<close>
  Layout and painting (where the absolute box ends up, rounded corners, shadows, the
  transition's timing) are the browser's rendering, not the component's logic; the
  model stops at the cascaded value of each property. Validity of a value for its
  property, inheritance and initial values are not modelled. JavaScript numbers are
  modelled by their integer values. Navigation on click is the browser's default action
  for a link with \<open>href\<close>; the model gives the attributes that drive it.
\<close>

section \<open>Reading the rendered page\<close>

definition page :: "props \<Rightarrow> dom list" where
  "page p = lower (FloatingTopRightImage p)"

definition anchor_attr :: "props \<Rightarrow> string \<Rightarrow> string option" where
  "anchor_attr p n = Option.bind (find_elem ''a'' (page p)) (\<lambda>as. dom_attr as n)"

definition img_attr :: "props \<Rightarrow> string \<Rightarrow> string option" where
  "img_attr p n = Option.bind (find_elem ''img'' (page p)) (\<lambda>as. dom_attr as n)"

text \<open>The cascaded value of a property for the first element with tag \<open>t\<close>, with the
  classes its \<open>class\<close> attribute gives, against all the stylesheets of the page.\<close>

definition elem_value ::
  "string \<Rightarrow> media_env \<Rightarrow> dom list \<Rightarrow> elem_state \<Rightarrow> string \<Rightarrow> string option" where
  "elem_value t e doc st prop =
     (case find_elem t doc of
        None \<Rightarrow> None
      | Some as \<Rightarrow> cascaded_value e (page_rules doc) (elem_classes as) st prop)"

definition anchor_value :: "media_env \<Rightarrow> props \<Rightarrow> elem_state \<Rightarrow> string \<Rightarrow> string option" where
  "anchor_value e p st prop = elem_value ''a'' e (page p) st prop"

definition image_value :: "media_env \<Rightarrow> props \<Rightarrow> elem_state \<Rightarrow> string \<Rightarrow> string option" where
  "image_value e p st prop = elem_value ''img'' e (page p) st prop"

text \<open>The value a substituted declaration gets: none when blank, trimmed otherwise.\<close>

definition decl_value :: "string \<Rightarrow> string option" where
  "decl_value v = (if blank v then None else Some (trim_ws v))"

text \<open>The spec-level contract of the rendered anchor and image (theory \<open>Contract\<close>), read
  from the page.\<close>

definition rendered_contract :: "props \<Rightarrow> anchor_contract option" where
  "rendered_contract p =
     (case find_elem ''a'' (page p) of
        None \<Rightarrow> None
      | Some as \<Rightarrow> (case find_elem ''img'' (page p) of None \<Rightarrow> None | Some is \<Rightarrow> Some (anchor_view as is)))"

section \<open>Shared lemmas\<close>

lemma find_anchor: "find_elem ''a'' (page p) = Some (anchor_attrs (resolve_props p))"
  by (simp add: page_def lower_FloatingTopRightImage)

lemma find_img: "find_elem ''img'' (page p) = Some (img_attrs (resolve_props p))"
  by (simp add: page_def lower_FloatingTopRightImage)

lemma anchor_classes: "elem_classes (anchor_attrs q) = [''floating-image-link'']"
  by (simp add: elem_classes_def anchor_attrs_def)

lemma img_classes: "elem_classes (img_attrs q) = [''floating-image'']"
  by (simp add: elem_classes_def img_attrs_def)

lemma page_rules_page:
  assumes "plain_props p"
  shows "page_rules (page p) =
           container_rules @ floating_rules (js_to_string (top_val (resolve_props p)))
             (js_to_string (right_val (resolve_props p))) (js_to_string (imgWidth (resolve_props p)))"
  using assms
  by (simp add: plain_props_def page_def page_rules_def lower_FloatingTopRightImage
      container_styles_rules floating_styles_rules)

lemma media_min_width_768:
  "media_holds e ''@media (min-width: 768px)'' \<longleftrightarrow> 768 \<le> viewport_width e"
  by (simp add: media_holds_def media_cond_holds_def min_width_px_def strip_prefix_def
      nat_of_digits_def trim_ws_def)

lemma media_motion_ok:
  "media_holds e ''@media (prefers-reduced-motion: no-preference)'' \<longleftrightarrow> \<not> prefers_reduced_motion e"
  by (simp add: media_holds_def media_cond_holds_def strip_prefix_def trim_ws_def)

lemma component_selectors:
  "parse_selector ''.floating-container'' = Some (ClassSel ''floating-container'' None)"
  "parse_selector ''.floating-link'' = Some (ClassSel ''floating-link'' None)"
  "parse_selector ''.floating-image-link'' = Some (ClassSel ''floating-image-link'' None)"
  "parse_selector ''.floating-image'' = Some (ClassSel ''floating-image'' None)"
  "parse_selector ''.floating-image-link:focus-visible'' =
     Some (ClassSel ''floating-image-link'' (Some ''focus-visible''))"
  "parse_selector ''.floating-image-link:hover'' = Some (ClassSel ''floating-image-link'' (Some ''hover''))"
  "parse_selector ''.floating-image-link:active'' = Some (ClassSel ''floating-image-link'' (Some ''active''))"
  by (simp_all add: parse_selector_def class_name_ok_def)

lemmas cascade_eval = cascaded_value_def decl_candidates_def candidate_def container_rules_def
  floating_rules_def decl_if_def decl_value_def media_min_width_768 media_motion_ok
  component_selectors

text \<open>Under plain props, a style value of the anchor or the image is the cascade over the
  component's two rule lists.\<close>

lemma anchor_value_rules:
  "plain_props p \<Longrightarrow> anchor_value e p st prop =
     cascaded_value e (container_rules @ floating_rules (js_to_string (top_val (resolve_props p)))
       (js_to_string (right_val (resolve_props p))) (js_to_string (imgWidth (resolve_props p))))
       [''floating-image-link''] st prop"
  by (simp add: anchor_value_def elem_value_def find_anchor anchor_classes page_rules_page)

lemma image_value_rules:
  "plain_props p \<Longrightarrow> image_value e p st prop =
     cascaded_value e (container_rules @ floating_rules (js_to_string (top_val (resolve_props p)))
       (js_to_string (right_val (resolve_props p))) (js_to_string (imgWidth (resolve_props p))))
       [''floating-image''] st prop"
  by (simp add: image_value_def elem_value_def find_img img_classes page_rules_page)

lemma anchor_attr_lookup: "anchor_attr p n = map_of (anchor_attrs (resolve_props p)) n"
  by (simp add: anchor_attr_def find_anchor dom_attr_def)

lemma img_attr_lookup: "img_attr p n = map_of (img_attrs (resolve_props p)) n"
  by (simp add: img_attr_def find_img dom_attr_def)

lemma plain_defaults: "plain_props no_props"
  by (simp add: plain_props_def no_props_def css_plain_def)

section \<open>Accessibility and link attributes\<close>

text \<open>C1. The anchor's accessible label (line 82, \<open>alt || 'Open link'\<close>): the text of
  \<open>alt\<close> when it is truthy, otherwise \<open>Open link\<close>. For a string \<open>alt\<close> (or none),
  this is the spec's rule: \<open>alt\<close> when non-empty, the fallback otherwise.\<close>

theorem aria_label_alt_or_fallback:
  "anchor_attr p ''aria-label'' =
     Some (if truthy (alt (resolve_props p)) then js_to_string (alt (resolve_props p)) else ''Open link'')"
  by (cases "alt (resolve_props p)")
     (simp_all add: anchor_attr_lookup anchor_attrs_def attr_lookup js_or_def del: map_of_append)

text \<open>C2. Lines 80-81: the anchor gets \<open>target="_blank"\<close> and
  \<open>rel="noopener noreferrer"\<close> exactly when \<open>newTab\<close> is truthy, and neither otherwise.\<close>

theorem new_tab_target_rel:
  "anchor_attr p ''target'' = (if truthy (newTab (resolve_props p)) then Some ''_blank'' else None) \<and>
   anchor_attr p ''rel'' =
     (if truthy (newTab (resolve_props p)) then Some ''noopener noreferrer'' else None)"
  by (simp add: anchor_attr_lookup anchor_attrs_def attr_lookup js_cond_def del: map_of_append)


section \<open>Width, breakpoint and motion\<close>

text \<open>C3. Below the 768px breakpoint the image's width is the \<open>imgWidth\<close> prop (line 58),
  trimmed; a blank \<open>imgWidth\<close> gives no width declaration at all.\<close>

theorem image_width_narrow:
  assumes "plain_props p" and "viewport_width e < 768"
  shows "image_value e p st ''width'' = decl_value (js_to_string (imgWidth (resolve_props p)))"
  using image_value_rules [OF assms(1)] assms(2) by (simp add: cascade_eval)

theorem image_width_narrow_witness:
  "plain_props no_props \<and> viewport_width \<lparr>viewport_width = 375, prefers_reduced_motion = False\<rparr> < 768 \<and>
   image_value \<lparr>viewport_width = 375, prefers_reduced_motion = False\<rparr> no_props
     \<lparr>hovered = False, activated = False, focus_visible = False\<rparr> ''width'' = Some ''min(35vw, 200px)''"
  using image_width_narrow [OF plain_defaults, of "\<lparr>viewport_width = 375, prefers_reduced_motion = False\<rparr>"]
  by (simp add: plain_defaults) (simp add: no_props_def decl_value_def trim_ws_def)

text \<open>C4. At and above the breakpoint (lines 66-68) the width is \<open>min(22vw, 240px)\<close>,
  whatever \<open>imgWidth\<close> says: the media rule comes later with the same specificity.\<close>

theorem image_width_wide:
  assumes "plain_props p" and "768 \<le> viewport_width e"
  shows "image_value e p st ''width'' = Some ''min(22vw, 240px)''"
  using image_value_rules [OF assms(1)] assms(2) by (simp add: cascade_eval)

theorem image_width_wide_witness:
  "plain_props no_props \<and> 768 \<le> viewport_width \<lparr>viewport_width = 1280, prefers_reduced_motion = False\<rparr> \<and>
   image_value \<lparr>viewport_width = 1280, prefers_reduced_motion = False\<rparr> no_props
     \<lparr>hovered = False, activated = False, focus_visible = False\<rparr> ''width'' = Some ''min(22vw, 240px)''"
  using image_width_wide [OF plain_defaults, of "\<lparr>viewport_width = 1280, prefers_reduced_motion = False\<rparr>"]
  by (simp add: plain_defaults)

text \<open>C5. When the user prefers reduced motion the anchor has no transition and no
  transform in any state (lines 70-74 are inside the no-preference media block): the rules
  are absent, not merely inactive.\<close>

theorem reduced_motion_suppressed:
  assumes "plain_props p" and "prefers_reduced_motion e"
  shows "anchor_value e p st ''transition'' = None \<and> anchor_value e p st ''transform'' = None"
  using anchor_value_rules [OF assms(1)] assms(2) by (simp add: cascade_eval)

theorem reduced_motion_suppressed_witness:
  "plain_props no_props \<and> prefers_reduced_motion \<lparr>viewport_width = 375, prefers_reduced_motion = True\<rparr> \<and>
   anchor_value \<lparr>viewport_width = 375, prefers_reduced_motion = True\<rparr> no_props
     \<lparr>hovered = True, activated = True, focus_visible = False\<rparr> ''transition'' = None \<and>
   anchor_value \<lparr>viewport_width = 375, prefers_reduced_motion = True\<rparr> no_props
     \<lparr>hovered = True, activated = True, focus_visible = False\<rparr> ''transform'' = None"
  using reduced_motion_suppressed [OF plain_defaults,
      of "\<lparr>viewport_width = 375, prefers_reduced_motion = True\<rparr>"
         "\<lparr>hovered = True, activated = True, focus_visible = False\<rparr>"]
  by (simp add: plain_defaults)

text \<open>C6. Without that preference the anchor has the transition of line 71; hovering lifts
  it by 2px (line 72), and pressing it puts it back (line 73), the later rule winning when
  it is both hovered and active.\<close>

theorem motion_hover_active:
  assumes "plain_props p" and "\<not> prefers_reduced_motion e"
  shows "anchor_value e p st ''transition'' = Some ''transform 160ms ease, box-shadow 160ms ease'' \<and>
         anchor_value e p st ''transform'' =
           (if activated st then Some ''translateY(0)''
            else if hovered st then Some ''translateY(-2px)'' else None)"
  using anchor_value_rules [OF assms(1)] assms(2) by (simp add: cascade_eval)

theorem motion_hover_active_witness:
  "plain_props no_props \<and> \<not> prefers_reduced_motion \<lparr>viewport_width = 1280, prefers_reduced_motion = False\<rparr> \<and>
   anchor_value \<lparr>viewport_width = 1280, prefers_reduced_motion = False\<rparr> no_props
     \<lparr>hovered = True, activated = False, focus_visible = False\<rparr> ''transform'' = Some ''translateY(-2px)''"
  using motion_hover_active [OF plain_defaults,
      of "\<lparr>viewport_width = 1280, prefers_reduced_motion = False\<rparr>"
         "\<lparr>hovered = True, activated = False, focus_visible = False\<rparr>"]
  by (simp add: plain_defaults)

section \<open>Placement, focus ring and size cap\<close>

text \<open>C8. The anchor is absolutely positioned (line 42) and offset by the \<open>top\<close> and
  \<open>right\<close> props (lines 43-44), trimmed, at every viewport and in every state; a blank
  offset gives no declaration. It stacks at z-index 9 (line 48).\<close>

theorem anchor_offsets:
  assumes "plain_props p"
  shows "anchor_value e p st ''position'' = Some ''absolute'' \<and>
         anchor_value e p st ''top'' = decl_value (js_to_string (top_val (resolve_props p))) \<and>
         anchor_value e p st ''right'' = decl_value (js_to_string (right_val (resolve_props p))) \<and>
         anchor_value e p st ''z-index'' = Some ''9''"
  using anchor_value_rules [OF assms] by (simp add: cascade_eval)

theorem anchor_offsets_witness:
  "plain_props no_props \<and>
   anchor_value \<lparr>viewport_width = 1280, prefers_reduced_motion = False\<rparr> no_props
     \<lparr>hovered = False, activated = False, focus_visible = False\<rparr> ''top'' = Some ''0.75rem''"
  using anchor_offsets [OF plain_defaults,
      of "\<lparr>viewport_width = 1280, prefers_reduced_motion = False\<rparr>"
         "\<lparr>hovered = False, activated = False, focus_visible = False\<rparr>"]
  by (simp add: plain_defaults) (simp add: no_props_def decl_value_def trim_ws_def)

text \<open>C9. The anchor shows the 3px focus ring with a 4px offset (lines 51-55) exactly
  when it has keyboard focus (\<open>:focus-visible\<close>), and no outline otherwise.\<close>

theorem focus_ring:
  assumes "plain_props p"
  shows "anchor_value e p st ''outline'' =
           (if focus_visible st then Some ''3px solid rgba(0, 0, 0, 0.5)'' else None) \<and>
         anchor_value e p st ''outline-offset'' = (if focus_visible st then Some ''4px'' else None)"
  using anchor_value_rules [OF assms] by (simp add: cascade_eval)

theorem focus_ring_witness:
  "plain_props no_props \<and>
   anchor_value \<lparr>viewport_width = 375, prefers_reduced_motion = True\<rparr> no_props
     \<lparr>hovered = False, activated = False, focus_visible = True\<rparr> ''outline'' =
     Some ''3px solid rgba(0, 0, 0, 0.5)''"
  using focus_ring [OF plain_defaults,
      of "\<lparr>viewport_width = 375, prefers_reduced_motion = True\<rparr>"
         "\<lparr>hovered = False, activated = False, focus_visible = True\<rparr>"]
  by (simp add: plain_defaults)

text \<open>C10. The image never exceeds its container: \<open>max-width: 100%\<close> (line 60) holds at
  every viewport, with \<open>height: auto\<close> and \<open>display: block\<close> (lines 59, 63).\<close>

theorem image_capped:
  assumes "plain_props p"
  shows "image_value e p st ''max-width'' = Some ''100%'' \<and>
         image_value e p st ''height'' = Some ''auto'' \<and>
         image_value e p st ''display'' = Some ''block''"
  using image_value_rules [OF assms] by (simp add: cascade_eval)

theorem image_capped_witness:
  "plain_props no_props \<and>
   image_value \<lparr>viewport_width = 1280, prefers_reduced_motion = False\<rparr> no_props
     \<lparr>hovered = True, activated = False, focus_visible = False\<rparr> ''max-width'' = Some ''100%''"
  using image_capped [OF plain_defaults,
      of "\<lparr>viewport_width = 1280, prefers_reduced_motion = False\<rparr>"
         "\<lparr>hovered = True, activated = False, focus_visible = False\<rparr>"]
  by (simp add: plain_defaults)

section \<open>The spec's scenarios\<close>

text \<open>C11. \<open>{src: "/img.png"}\<close> with every other prop defaulted: the label falls back to
  "Open link", the link target is \<open>#\<close>, there is no \<open>target\<close> and no \<open>rel\<close>, the image has
  an empty alt text, and on a phone it is \<open>min(35vw, 200px)\<close> wide, 0.75rem from the top.\<close>

theorem scenario_defaults:
  "anchor_attr (no_props\<lparr>src := JStr ''/img.png''\<rparr>) ''aria-label'' = Some ''Open link'' \<and>
   anchor_attr (no_props\<lparr>src := JStr ''/img.png''\<rparr>) ''href'' = Some ''#'' \<and>
   anchor_attr (no_props\<lparr>src := JStr ''/img.png''\<rparr>) ''target'' = None \<and>
   anchor_attr (no_props\<lparr>src := JStr ''/img.png''\<rparr>) ''rel'' = None \<and>
   img_attr (no_props\<lparr>src := JStr ''/img.png''\<rparr>) ''alt'' = Some [] \<and>
   image_value \<lparr>viewport_width = 375, prefers_reduced_motion = False\<rparr> (no_props\<lparr>src := JStr ''/img.png''\<rparr>)
     \<lparr>hovered = False, activated = False, focus_visible = False\<rparr> ''width'' = Some ''min(35vw, 200px)'' \<and>
   anchor_value \<lparr>viewport_width = 375, prefers_reduced_motion = False\<rparr> (no_props\<lparr>src := JStr ''/img.png''\<rparr>)
     \<lparr>hovered = False, activated = False, focus_visible = False\<rparr> ''top'' = Some ''0.75rem''"
proof -
  have plain: "plain_props (no_props\<lparr>src := JStr ''/img.png''\<rparr>)"
    by (simp add: plain_props_def no_props_def css_plain_def)
  show ?thesis
    using image_value_rules [OF plain] anchor_value_rules [OF plain]
    by (simp add: anchor_attr_lookup img_attr_lookup anchor_attrs_def img_attrs_def no_props_def
        js_or_def js_cond_def cascade_eval trim_ws_def)
qed

section \<open>Behaviour at the edges of the props\<close>

text \<open>C12. The anchor's \<open>href\<close> (line 79) for every value of the \<open>href\<close> prop: \<open>#\<close>
  when it is left out (the default of line 22), the string or the number as written
  otherwise, and no \<open>href\<close> at all when it is \<open>null\<close> or a boolean. The default only
  replaces \<open>undefined\<close>, so \<open>href={null}\<close> renders an anchor that is not a link.\<close>

theorem href_attribute:
  "anchor_attr p ''href'' =
     (case href p of
        JUndefined \<Rightarrow> Some ''#''
      | JNull \<Rightarrow> None
      | JBool b \<Rightarrow> None
      | JNum i \<Rightarrow> Some (int_to_string i)
      | JStr h \<Rightarrow> Some h)"
  by (cases "href p")
     (simp_all add: anchor_attr_lookup anchor_attrs_def attr_lookup del: map_of_append)

text \<open>C14. The class names of the style rules are global: on a page with two instances
  whose second has a non-blank \<open>top\<close>, the first instance's anchor is placed at the
  second instance's \<open>top\<close>, because its rules come later with the same specificity.\<close>

theorem two_instances_last_top_wins:
  assumes "plain_props p1" and "plain_props p2"
    and "\<not> blank (js_to_string (top_val (resolve_props p2)))"
  shows "elem_value ''a'' e (page p1 @ page p2) st ''top'' =
           Some (trim_ws (js_to_string (top_val (resolve_props p2))))"
proof -
  have "find_elem ''a'' (page p1 @ page p2) = Some (anchor_attrs (resolve_props p1))"
    using find_anchor by (rule find_elem_append)
  moreover have "page_rules (page p1 @ page p2) = page_rules (page p1) @ page_rules (page p2)"
    by (simp add: page_rules_def)
  ultimately show ?thesis
    using assms(3)
    by (simp add: elem_value_def anchor_classes page_rules_page [OF assms(1)]
        page_rules_page [OF assms(2)] cascade_eval)
qed

theorem two_instances_last_top_wins_witness:
  "plain_props (no_props\<lparr>top_val := JStr ''3rem''\<rparr>) \<and> plain_props no_props \<and>
   \<not> blank (js_to_string (top_val (resolve_props no_props))) \<and>
   elem_value ''a'' \<lparr>viewport_width = 1280, prefers_reduced_motion = False\<rparr>
     (page (no_props\<lparr>top_val := JStr ''3rem''\<rparr>) @ page no_props)
     \<lparr>hovered = False, activated = False, focus_visible = False\<rparr> ''top'' = Some ''0.75rem''"
proof -
  have plain: "plain_props (no_props\<lparr>top_val := JStr ''3rem''\<rparr>)"
    by (simp add: plain_props_def no_props_def css_plain_def)
  have nb: "\<not> blank (js_to_string (top_val (resolve_props no_props)))"
    by (simp add: no_props_def)
  show ?thesis
    using two_instances_last_top_wins [OF plain plain_defaults nb,
        of "\<lparr>viewport_width = 1280, prefers_reduced_motion = False\<rparr>"
           "\<lparr>hovered = False, activated = False, focus_visible = False\<rparr>"]
      plain plain_defaults nb
    by (simp add: no_props_def trim_ws_def)
qed

section \<open>The image and the dead rules\<close>

text \<open>C16. The image's \<open>src\<close> (line 84) is the \<open>src\<close> prop as given: it has no
  default, so an image with no \<open>src\<close> prop has no source. Its \<open>alt\<close> is the empty string
  when the prop is left out (the default of line 23), which marks the image decorative
  while the anchor carries the label; \<open>null\<close> or a boolean leaves it out.\<close>

theorem image_src_alt:
  "img_attr p ''src'' =
     (case src p of JStr s \<Rightarrow> Some s | JNum i \<Rightarrow> Some (int_to_string i) | _ \<Rightarrow> None) \<and>
   img_attr p ''alt'' =
     (case alt p of
        JUndefined \<Rightarrow> Some []
      | JNull \<Rightarrow> None
      | JBool b \<Rightarrow> None
      | JNum i \<Rightarrow> Some (int_to_string i)
      | JStr a \<Rightarrow> Some a)"
  by (cases "src p"; cases "alt p")
     (simp_all add: img_attr_lookup img_attrs_def attr_lookup del: map_of_append)

text \<open>C17. No element the component renders has the class \<open>floating-container\<close> or
  \<open>floating-link\<close>: the two rules of the first template (lines 32-37) style nothing the
  component renders.\<close>

theorem container_rules_unused:
  "''floating-container'' \<notin> set (concat (map dom_classes (page p))) \<and>
   ''floating-link'' \<notin> set (concat (map dom_classes (page p)))"
proof -
  have "elem_classes [] = []"
    by (simp add: elem_classes_def)
  then show ?thesis
    by (simp add: page_def lower_FloatingTopRightImage anchor_classes img_classes)
qed

section \<open>Unsanitised interpolation\<close>

text \<open>C13. The \<open>top\<close>, \<open>right\<close> and \<open>imgWidth\<close> props are pasted into the stylesheet
  (lines 43, 44, 58) without escaping. With \<open>top = "0 } .x { color: red"\<close> the anchor's rule
  ends after \<open>top: 0\<close>, and the anchor loses its \<open>right\<close> offset, its \<open>display\<close> and its
  \<open>z-index\<close> at every viewport and in every state: they now belong to a rule for \<open>.x\<close>.\<close>

theorem css_injection_top:
  "anchor_value e (no_props\<lparr>top_val := JStr ''0 } .x { color: red''\<rparr>) st ''top'' = Some ''0'' \<and>
   anchor_value e (no_props\<lparr>top_val := JStr ''0 } .x { color: red''\<rparr>) st ''right'' = None \<and>
   anchor_value e (no_props\<lparr>top_val := JStr ''0 } .x { color: red''\<rparr>) st ''display'' = None \<and>
   anchor_value e (no_props\<lparr>top_val := JStr ''0 } .x { color: red''\<rparr>) st ''z-index'' = None"
proof -
  have res: "resolve_props (no_props\<lparr>top_val := JStr ''0 } .x { color: red''\<rparr>) =
      \<lparr>src = JUndefined, href = JStr ''#'', alt = JStr [], imgWidth = JStr ''min(35vw, 200px)'',
       top_val = JStr ''0 } .x { color: red'', right_val = JStr ''0.75rem'', newTab = JBool False\<rparr>"
    by (simp add: resolve_props_def no_props_def)
  have rules: "page_rules (page (no_props\<lparr>top_val := JStr ''0 } .x { color: red''\<rparr>)) =
      container_rules @
      StyleRule ''.floating-image-link'' [Decl ''position'' ''absolute'', Decl ''top'' ''0''] #
      StyleRule ''.x'' [Decl ''color'' ''red'', Decl ''right'' ''0.75rem'',
        Decl ''display'' ''inline-block'', Decl ''text-decoration'' ''none'',
        Decl ''line-height'' ''0'', Decl ''z-index'' ''9''] #
      tl (floating_rules ''0'' ''0.75rem'' ''min(35vw, 200px)'')"
    by (simp add: page_def page_rules_def lower_FloatingTopRightImage res container_styles_rules
        floating_styles_injected)
  have sel: "parse_selector ''.x'' = Some (ClassSel ''x'' None)"
    by (simp add: parse_selector_def class_name_ok_def)
  show ?thesis
    by (simp add: anchor_value_def elem_value_def find_anchor anchor_classes rules sel cascade_eval)
qed

section \<open>Refinement of the spec's contract\<close>

text \<open>C18. For every configuration of the spec's DisplayConfig (strings, a boolean
  \<open>newTab\<close>, any field left out), the anchor and the image the component renders implement
  the contract of spec sections 4.1 and 8: the link goes to \<open>href\<close> or the no-op \<open>#\<close>; the
  label is \<open>alt\<close> if non-empty and "Open link" otherwise; a new, isolated browsing context
  exactly when \<open>newTab\<close> is true; the image shows \<open>src\<close> with the text \<open>alt\<close>.\<close>

theorem page_refines_contract: "rendered_contract (config_props c) = Some (spec_anchor c)"
  by (simp add: rendered_contract_def find_anchor find_img anchor_view_attrs)

end
